theory Spec2Isabelle
  imports Main "HOL-Library.Multiset" "HOL-Library.Char_ord" "HOL-Library.List_Lexorder"
begin

section \<open>Strings and the regular expressions the parsers use\<close>

text \<open>
  Python strings are modelled as \<open>string\<close>: lists of characters with code points below
  256. The letters the patterns of the two parsers name are ASCII, and the model follows
  Python on ASCII input. Outside ASCII one function differs: \<open>upper\<close> maps \<open>a..z\<close> to
  \<open>A..Z\<close> and leaves every other character alone, where \<open>str.upper()\<close> also maps the
  accented Latin letters (some of them to characters this type does not have).
  The patterns passed to \<open>re.match\<close>, \<open>re.search\<close>, \<open>re.sub\<close> and \<open>re.split\<close> in the
  source are literals, alternations of literals, or a character class at the start of
  the string; each is modelled by the list function that computes the same result.
\<close>

datatype py_error = ValueError | UnboundLocalError

text \<open>\<open>re.match(pat, s)\<close> for a literal \<open>pat\<close>: the string starts with it.\<close>

definition startswith :: "string \<Rightarrow> string \<Rightarrow> bool" where
  "startswith pat s = (take (length pat) s = pat)"

text \<open>\<open>re.search(pat, s)\<close> for a literal \<open>pat\<close>: some suffix of the string starts with it.\<close>

fun re_search :: "string \<Rightarrow> string \<Rightarrow> bool" where
  "re_search pat [] = (pat = [])"
| "re_search pat (c # cs) = (startswith pat (c # cs) \<or> re_search pat cs)"

text \<open>The first alternative of \<open>p1|p2|...\<close> that matches at the start of the string.\<close>

fun first_alt :: "string list \<Rightarrow> string \<Rightarrow> string option" where
  "first_alt [] s = None"
| "first_alt (p # ps) s = (if p \<noteq> [] \<and> startswith p s then Some p else first_alt ps s)"

lemma first_alt_Some:
  "first_alt ps s = Some p \<Longrightarrow> p \<noteq> [] \<and> p \<in> set ps \<and> startswith p s"
  by (induction ps) (auto split: if_splits)

text \<open>
  \<open>re.sub('p1|p2|...', rep, s)\<close> for non-empty literal alternatives: scanning from the
  left, every match is replaced by \<open>rep\<close> and the scan resumes behind the match.
\<close>

function re_sub :: "string list \<Rightarrow> string \<Rightarrow> string \<Rightarrow> string" where
  "re_sub pats rep [] = []"
| "re_sub pats rep (c # cs) =
     (case first_alt pats (c # cs) of
        Some p \<Rightarrow> rep @ re_sub pats rep (drop (length p) (c # cs))
      | None \<Rightarrow> c # re_sub pats rep cs)"
  by pat_completeness auto
termination
  by (relation "measure (\<lambda>(pats, rep, s). length s)") (auto dest!: first_alt_Some)

text \<open>\<open>re.split(d, s)\<close> for a one-character delimiter; the result is never empty.\<close>

fun split_on :: "char \<Rightarrow> string \<Rightarrow> string list" where
  "split_on d [] = [[]]"
| "split_on d (c # cs) =
     (if c = d then [] # split_on d cs
      else (case split_on d cs of [] \<Rightarrow> [[c]] | x # xs \<Rightarrow> (c # x) # xs))"

text \<open>\<open>sep.join(xs)\<close>.\<close>

fun join :: "string \<Rightarrow> string list \<Rightarrow> string" where
  "join sep [] = []"
| "join sep [x] = x"
| "join sep (x # y # ys) = x @ sep @ join sep (y # ys)"

text \<open>\<open>str(n)\<close> for a non-negative integer: its decimal digits.\<close>

definition digit_char :: "nat \<Rightarrow> char" where
  "digit_char d = ''0123456789'' ! d"

function str_nat :: "nat \<Rightarrow> string" where
  "str_nat n = (if n < 10 then [digit_char n] else str_nat (n div 10) @ [digit_char (n mod 10)])"
  by pat_completeness auto
termination
  by (relation "measure id") auto

declare str_nat.simps [simp del]

definition upper_char :: "char \<Rightarrow> char" where
  "upper_char c =
     (case map_of (zip ''abcdefghijklmnopqrstuvwxyz'' ''ABCDEFGHIJKLMNOPQRSTUVWXYZ'') c of
        Some u \<Rightarrow> u | None \<Rightarrow> c)"

definition upper :: "string \<Rightarrow> string" where
  "upper s = map upper_char s"

text \<open>\<open>re.sub('^PAT', rep, s, flags=re.I)\<close>: a leading \<open>PAT\<close> in any letter case is replaced.\<close>

definition re_sub_prefix_ci :: "string \<Rightarrow> string \<Rightarrow> string \<Rightarrow> string" where
  "re_sub_prefix_ci pat rep s =
     (if upper (take (length pat) s) = upper pat then rep @ drop (length pat) s else s)"

definition is_digit :: "char \<Rightarrow> bool" where
  "is_digit c = (c \<in> set ''0123456789'')"


section \<open>UDP: the variant map\<close>

text \<open>
  \<open>UDP._convert_variant_file_to_dict\<close>. A row of the tab-separated file is a list of
  strings; the tuple assignment at the head of the loop raises \<open>ValueError\<close> unless it
  has 23 of them. Only the columns the function reads are kept in the record.
\<close>

record variant_row =
  patient :: string
  chromosome :: string
  build :: string
  position :: string
  reference_allele :: string
  variant_allele :: string
  mutation_type :: string
  gene_symbol :: string
  dbSNP_ID :: string

definition variant_row_of :: "string list \<Rightarrow> variant_row" where
  "variant_row_of row =
     \<lparr>patient = row ! 0, chromosome = row ! 2, build = row ! 3, position = row ! 4,
      reference_allele = row ! 5, variant_allele = row ! 6, mutation_type = row ! 9,
      gene_symbol = row ! 10, dbSNP_ID = row ! 20\<rparr>"

definition unpack_variant_row :: "string list \<Rightarrow> py_error + variant_row" where
  "unpack_variant_row row =
     (if length row = 23 then Inr (variant_row_of row) else Inl ValueError)"

text \<open>\<open>re.match(r'[XY]|[1-9]{1,2}', chromosome, flags=re.I)\<close>: decided by the first character.\<close>

definition bare_chromosome :: "string \<Rightarrow> bool" where
  "bare_chromosome s =
     (case s of [] \<Rightarrow> False
      | c # cs \<Rightarrow> upper_char c = CHR ''X'' \<or> upper_char c = CHR ''Y'' \<or> c \<in> set ''123456789'')"

text \<open>Lines 176-179 and 193-194: the value of \<open>formatted_chr\<close> that goes into the key.\<close>

definition formatted_chr :: "string \<Rightarrow> string" where
  "formatted_chr chrom =
     (let f1 = re_sub_prefix_ci ''CHR'' ''chr'' chrom;
          f2 = (if bare_chromosome chrom then ''chr'' @ upper chrom else f1)
      in if re_search ''chrGL'' f2 then [] else f2)"

definition formatted_build :: "string \<Rightarrow> string" where
  "formatted_build b = re_sub_prefix_ci ''HG'' ''hg'' b"

text \<open>Lines 182-191: \<open>ref_base\<close> and \<open>var_base\<close>.\<close>

definition allele_base :: "string \<Rightarrow> string" where
  "allele_base allele =
     (let b = upper allele
      in if re_search ''LEFT FLANK'' b \<or> re_search ''NM_'' b \<or> re_search ''EXON'' b
         then [] else b)"

text \<open>Lines 184 and 196-199: \<open>re.match(r'^(rs\d+).*', dbSNP_ID)\<close> and its first group.\<close>

definition rs_id_of :: "string \<Rightarrow> string" where
  "rs_id_of s =
     (if s \<noteq> [] \<and> startswith ''rs'' s \<and> takeWhile is_digit (drop 2 s) \<noteq> []
      then ''rs'' @ takeWhile is_digit (drop 2 s) else [])"

text \<open>Lines 202-209.\<close>

definition variant_id :: "nat \<Rightarrow> string list \<Rightarrow> string" where
  "variant_id line_num variant_info =
     (if [] \<in> set variant_info
      then str_nat line_num @ ''-'' @ join ''-'' (filter (\<lambda>info. info \<noteq> []) variant_info)
      else join ''-'' variant_info)"

definition variant_info :: "variant_row \<Rightarrow> string list" where
  "variant_info r =
     [formatted_chr (chromosome r), formatted_build (build r), position r,
      allele_base (reference_allele r), allele_base (variant_allele r)]"

record variant_entry =
  entry_build :: string
  entry_chromosome :: string
  entry_reference_allele :: string
  entry_variant_allele :: string
  entry_type :: string
  entry_rs_id :: "string option"
  genes_of_interest :: "string list"

type_synonym patient_variant_map = "string \<rightharpoonup> (string \<rightharpoonup> variant_entry)"

text \<open>The body of the loop after the unpacking (lines 173-224), at line \<open>line_num\<close>.\<close>

definition add_variant_row :: "nat \<Rightarrow> patient_variant_map \<Rightarrow> variant_row \<Rightarrow> patient_variant_map" where
  "add_variant_row line_num m r =
     (let variants = (case m (patient r) of None \<Rightarrow> Map.empty | Some d \<Rightarrow> d);
          vid = variant_id line_num (variant_info r);
          rs = rs_id_of (dbSNP_ID r)
      in m(patient r \<mapsto>
           (case variants vid of
              Some e \<Rightarrow> variants(vid \<mapsto> e\<lparr>genes_of_interest := genes_of_interest e @ [gene_symbol r]\<rparr>)
            | None \<Rightarrow> variants(vid \<mapsto>
                \<lparr>entry_build = formatted_build (build r),
                 entry_chromosome = formatted_chr (chromosome r),
                 entry_reference_allele = allele_base (reference_allele r),
                 entry_variant_allele = allele_base (variant_allele r),
                 entry_type = mutation_type r,
                 entry_rs_id = (if rs \<noteq> [] then Some rs else None),
                 genes_of_interest = [gene_symbol r]\<rparr>))))"

fun convert_rows :: "nat \<Rightarrow> patient_variant_map \<Rightarrow> string list list \<Rightarrow> py_error + patient_variant_map" where
  "convert_rows line_num m [] = Inr m"
| "convert_rows line_num m (row # rows) =
     (case unpack_variant_row row of
        Inl e \<Rightarrow> Inl e
      | Inr r \<Rightarrow> convert_rows (Suc line_num) (add_variant_row line_num m r) rows)"

definition convert_variant_file_to_dict :: "string list list \<Rightarrow> py_error + patient_variant_map" where
  "convert_variant_file_to_dict rows = convert_rows 0 Map.empty rows"

text \<open>The genes of interest stored for a patient under a variant key, if any.\<close>

definition genes_at :: "py_error + patient_variant_map \<Rightarrow> string \<Rightarrow> string \<Rightarrow> string list option" where
  "genes_at res p vid =
     (case res of Inl e \<Rightarrow> None
      | Inr m \<Rightarrow> (case m p of None \<Rightarrow> None
                  | Some d \<Rightarrow> map_option genes_of_interest (d vid)))"

text \<open>
  A row of \<open>udp_variants.tsv\<close> with the given patient, chromosome, build, position,
  reference allele, variant allele and gene, every other column empty.
\<close>

definition udp_variant_line ::
  "string \<Rightarrow> string \<Rightarrow> string \<Rightarrow> string \<Rightarrow> string \<Rightarrow> string \<Rightarrow> string \<Rightarrow> string list" where
  "udp_variant_line p c b pos r v g =
     [p, [], c, b, pos, r, v, [], [], [], g, [], [], [], [], [], [], [], [], [], [], [], []]"


text \<open>
  The stored list, with the empty list for a key that is absent.
\<close>

definition genes_list :: "patient_variant_map \<Rightarrow> string \<Rightarrow> string \<Rightarrow> string list" where
  "genes_list m p k = (case genes_at (Inr m) p k of None \<Rightarrow> [] | Some g \<Rightarrow> g)"

text \<open>
  The specification's side of the merge: the gene symbols, in file order, of the rows
  of patient \<open>p\<close> whose key is \<open>k\<close>, the first row standing at line \<open>n\<close>.
\<close>

fun contributing_genes :: "nat \<Rightarrow> variant_row list \<Rightarrow> string \<Rightarrow> string \<Rightarrow> string list" where
  "contributing_genes n [] p k = []"
| "contributing_genes n (r # rs) p k =
     (if patient r = p \<and> variant_id n (variant_info r) = k then [gene_symbol r] else [])
       @ contributing_genes (Suc n) rs p k"

text \<open>Reading a decimal numeral back, to show that \<open>str_nat\<close> loses nothing.\<close>

definition digit_val :: "char \<Rightarrow> nat" where
  "digit_val c = (case map_of (zip ''0123456789'' [0..<10]) c of Some d \<Rightarrow> d | None \<Rightarrow> 0)"

definition nat_of_str :: "string \<Rightarrow> nat" where
  "nat_of_str s = foldl (\<lambda>a c. 10 * a + digit_val c) 0 s"

section \<open>UDP: patient phenotypes\<close>

text \<open>
  \<open>UDP._parse_patient_phenotypes\<close>. \<open>GraphUtils\<close> is outside the sources, so its two
  calls are recorded as events in the order they are made; the predicate
  \<open>object_properties['has_phenotype']\<close> is a parameter. A loop either returns or raises,
  and the graph keeps what was written before the raise.
\<close>

datatype graph_event =
    AddPerson string string
  | AddTriple string string string

datatype 's outcome = Returned 's | Raised py_error 's

definition phenotype_row_step :: "string \<Rightarrow> graph_event list \<Rightarrow> string list \<Rightarrow> graph_event list" where
  "phenotype_row_step has_phenotype g row =
     (let patient_id = row ! 0; hpo_curie = row ! 1; present = row ! 2;
          patient_curie = '':'' @ patient_id;
          g1 = g @ [AddPerson patient_curie patient_id];
          g2 = g1 @ [AddTriple patient_curie has_phenotype ''DOID:4'']
      in if present = ''yes'' then g2 @ [AddTriple patient_curie has_phenotype hpo_curie] else g2)"

fun parse_phenotype_rows ::
  "string \<Rightarrow> bool \<Rightarrow> int option \<Rightarrow> int \<Rightarrow> graph_event list \<Rightarrow> string list list
     \<Rightarrow> graph_event list outcome" where
  "parse_phenotype_rows hp testMode limit line_counter g [] = Returned g"
| "parse_phenotype_rows hp testMode limit line_counter g (row # rows) =
     (if length row \<noteq> 3 then Raised ValueError g
      else let g' = phenotype_row_step hp g row;
               line_counter' = line_counter + 1
           in if \<not> testMode \<and> limit \<noteq> None \<and> line_counter' \<ge> the limit
              then Returned g'
              else parse_phenotype_rows hp testMode limit line_counter' g' rows)"

definition parse_patient_phenotypes ::
  "string \<Rightarrow> bool \<Rightarrow> int option \<Rightarrow> string list list \<Rightarrow> graph_event list outcome" where
  "parse_patient_phenotypes hp testMode limit rows =
     parse_phenotype_rows hp testMode limit 0 [] rows"


section \<open>WormBase: association rows\<close>

text \<open>
  \<open>WormBase.process_allele_phenotype\<close> and \<open>WormBase.process_disease_association\<close>.
  The attributes of the source object the two loops read are gathered in a record;
  \<open>parse\<close> sets \<open>nobnodes\<close> to \<open>True\<close> before it calls them.
\<close>

record source_config =
  testMode :: bool
  limit :: "int option"
  nobnodes :: bool

definition test_ids_gene :: "string list" where
  "test_ids_gene = [''WBGene00001414'', ''WBGene00004967'', ''WBGene00003916'', ''WBGene00004397'']"

text \<open>
  Modelled from the spec: the association record of \<open>dipper.models.assoc\<close>, which is
  not among the sources. The spec gives it a subject, a predicate, an object, an optional
  evidence code and a sequence of source references. \<open>G2PAssoc\<close> is built either with
  its default relation or with \<open>model_of\<close>.
\<close>

datatype relation = Default_relation | Model_of

record association =
  subject_id :: string
  predicate :: relation
  object_id :: string
  evidence_code :: "string option"
  source_refs :: "string list"

text \<open>
  The calls the loops make on the logger, on \<open>Genotype\<close>, on \<open>GraphUtils\<close> and on the
  association, in the order they are made.
\<close>

datatype wb_event =
    LogWarn string
  | LogError int
  | AddReagentTargetedGene string string string
  | AddGeneTargetingReagent string string
  | AddParts string string
  | AddIndividualToGraph string
  | AddAssociationToGraph association

fun associations :: "wb_event list \<Rightarrow> association list" where
  "associations [] = []"
| "associations (AddAssociationToGraph a # es) = a # associations es"
| "associations (e # es) = associations es"

record loop_state =
  line_counter :: int
  graph :: "wb_event list"

text \<open>
  In \<open>process_disease_association\<close> the local variable \<open>eco_id\<close> is assigned in one
  branch only and keeps its value from row to row; \<open>None\<close> stands for a variable that
  has not been assigned yet.
\<close>

record disease_state = loop_state +
  eco_id :: "string option"

datatype 's step_result = Continue 's | Break 's | Raise py_error 's

text \<open>The columns of a row that the loops read, out of the 17 the tuple assignment takes.\<close>

record assoc_row =
  gene_num :: string
  is_not :: string
  term_id :: string
  ref :: string
  eco_symbol :: string
  with_or_from :: string

definition unpack_assoc_row :: "string list \<Rightarrow> py_error + assoc_row" where
  "unpack_assoc_row row =
     (if length row = 17
      then Inr \<lparr>gene_num = row ! 1, is_not = row ! 3, term_id = row ! 4, ref = row ! 5,
                eco_symbol = row ! 6, with_or_from = row ! 7\<rparr>
      else Inl ValueError)"

text \<open>\<open>re.match('!', ''.join(row))\<close>.\<close>

definition is_header :: "string list \<Rightarrow> bool" where
  "is_header row = startswith ''!'' (concat row)"

text \<open>
  \<open>s.strip()\<close>, over the characters below 256 that Python counts as white space: the
  ASCII ones, the next-line character and the no-break space.
\<close>

definition is_space :: "char \<Rightarrow> bool" where
  "is_space c = (c \<in> set [CHR 0x20, CHR 0x09, CHR 0x0A, CHR 0x0B, CHR 0x0C, CHR 0x0D,
                            CHR 0x1C, CHR 0x1D, CHR 0x1E, CHR 0x1F, CHR 0x85, CHR 0xA0])"

definition strip :: "string \<Rightarrow> string" where
  "strip s = rev (dropWhile is_space (rev (dropWhile is_space s)))"

text \<open>
  Lines 282-291: \<open>temp_var\<close> and \<open>temp_ref\<close> are both taken from the columns as read,
  then assigned. The result is the pair \<open>(ref, with_or_from)\<close> the rest of the loop uses.
\<close>

definition reassign_ref_with :: "string \<Rightarrow> string \<Rightarrow> string \<times> string" where
  "reassign_ref_with ref0 with0 =
     (let temp_var = (if re_search ''WBVar'' ref0 \<or> re_search ''WBRNAi'' ref0
                      then Some ref0 else None);
          temp_ref = (if startswith ''WBPerson'' with0 then Some with0 else None);
          with1 = (case temp_var of Some v \<Rightarrow> v | None \<Rightarrow> with0);
          ref1 = (case temp_ref of Some v \<Rightarrow> v | None \<Rightarrow> ref0)
      in (ref1, with1))"

text \<open>Lines 687-693.\<close>

definition make_reagent_targeted_gene_id :: "bool \<Rightarrow> string \<Rightarrow> string \<Rightarrow> string" where
  "make_reagent_targeted_gene_id nb gene_id reagent_id =
     (let rtg_id = ''_'' @ join ''-'' [gene_id, reagent_id]
      in if nb then '':'' @ rtg_id else rtg_id)"

text \<open>Lines 313-317: the key of the variant collection.\<close>

definition gvc_id :: "bool \<Rightarrow> string list \<Rightarrow> string" where
  "gvc_id nb allele_list =
     (let sorted_list = sort allele_list;
          g = re_sub [''WB:''] [] (''_'' @ join ''-'' sorted_list)
      in if nb then '':'' @ g else g)"

text \<open>Lines 297-309: one identifier. The result is the events and the subject.\<close>

definition single_allele_subject ::
  "bool \<Rightarrow> string \<Rightarrow> string \<Rightarrow> wb_event list \<times> string" where
  "single_allele_subject nb gene allele =
     (let allele_id = re_sub [''WB:''] ''WormBase:'' allele
      in if re_search ''WBRNAi'' allele_id
         then let rnai_num = re_sub [''WormBase:''] [] allele_id;
                  rnai_id = allele_id;
                  gene_id = ''WormBase:'' @ gene;
                  rtg_id = make_reagent_targeted_gene_id nb gene rnai_num
              in ([AddReagentTargetedGene rnai_id (''WormBase:'' @ gene) rtg_id,
                   AddGeneTargetingReagent rnai_id gene_id], rtg_id)
         else ([], allele_id))"

text \<open>Lines 310-323: several identifiers.\<close>

definition gvc_subject :: "bool \<Rightarrow> string list \<Rightarrow> wb_event list \<times> string" where
  "gvc_subject nb allele_list =
     (let sorted_list = sort allele_list;
          gid = gvc_id nb allele_list
      in (map (\<lambda>a. AddParts (re_sub [''WB:''] ''WormBase:'' a) gid) sorted_list
            @ [AddIndividualToGraph gid], gid))"

definition log_event :: "wb_event list \<Rightarrow> ('a loop_state_scheme) \<Rightarrow> ('a loop_state_scheme)" where
  "log_event es st = st\<lparr>graph := graph st @ es\<rparr>"

text \<open>The break at the foot of the loop (lines 334-335).\<close>

definition after_row :: "source_config \<Rightarrow> loop_state \<Rightarrow> loop_state step_result" where
  "after_row cfg st =
     (if \<not> testMode cfg \<and> limit cfg \<noteq> None \<and> line_counter st > the (limit cfg)
      then Break st else Continue st)"

text \<open>One pass through the body of the loop of \<open>process_allele_phenotype\<close> (lines 256-335).\<close>

definition allele_phenotype_step ::
  "source_config \<Rightarrow> loop_state \<Rightarrow> string list \<Rightarrow> loop_state step_result" where
  "allele_phenotype_step cfg st row =
     (if is_header row then Continue st
      else let st1 = st\<lparr>line_counter := line_counter st + 1\<rparr>
       in case unpack_assoc_row row of
            Inl e \<Rightarrow> Raise e st1
          | Inr r \<Rightarrow>
             if testMode cfg \<and> gene_num r \<notin> set test_ids_gene then Continue st1
             else if is_not r = ''NOT'' then Continue st1
             else
               let eco = (if eco_symbol r = ''IMP'' then Some ''ECO:0000015'' else None);
                   st2 = (if eco_symbol r \<noteq> ''IMP'' \<and> strip (eco_symbol r) \<noteq> []
                          then log_event [LogWarn (eco_symbol r)] st1 else st1);
                   (ref1, with1) = reassign_ref_with (ref r) (with_or_from r);
                   allele_list = split_on CHR ''|'' with1
               in if length allele_list = 0
                  then Continue (log_event [LogError (line_counter st2)] st2)
                  else
                    let (es, subj) = (if length allele_list = 1
                                      then single_allele_subject (nobnodes cfg) (gene_num r) (hd allele_list)
                                      else gvc_subject (nobnodes cfg) allele_list);
                        assoc = \<lparr>subject_id = subj, predicate = Default_relation,
                                 object_id = term_id r, evidence_code = eco,
                                 source_refs = (if ref1 \<noteq> []
                                    then [re_sub [''WB:'', ''WB_REF:''] ''WormBase:'' ref1] else [])\<rparr>
                    in after_row cfg (log_event (es @ [AddAssociationToGraph assoc]) st2))"

fun allele_phenotype_rows ::
  "source_config \<Rightarrow> loop_state \<Rightarrow> string list list \<Rightarrow> loop_state outcome" where
  "allele_phenotype_rows cfg st [] = Returned st"
| "allele_phenotype_rows cfg st (row # rows) =
     (case allele_phenotype_step cfg st row of
        Continue st' \<Rightarrow> allele_phenotype_rows cfg st' rows
      | Break st' \<Rightarrow> Returned st'
      | Raise e st' \<Rightarrow> Raised e st')"

definition process_allele_phenotype :: "source_config \<Rightarrow> string list list \<Rightarrow> loop_state outcome" where
  "process_allele_phenotype cfg rows =
     allele_phenotype_rows cfg \<lparr>line_counter = 0, graph = []\<rparr> rows"

text \<open>
  One pass through the body of the loop of \<open>process_disease_association\<close> (lines
  622-646). The test \<open>eco_id is not None\<close> reads the local variable: it raises
  \<open>UnboundLocalError\<close> when no row so far had the symbol \<open>IEA\<close>, and is true otherwise.
\<close>

definition disease_association_step ::
  "source_config \<Rightarrow> disease_state \<Rightarrow> string list \<Rightarrow> disease_state step_result" where
  "disease_association_step cfg st row =
     (if is_header row then Continue st
      else let st1 = st\<lparr>line_counter := line_counter st + 1\<rparr>
       in case unpack_assoc_row row of
            Inl e \<Rightarrow> Raise e st1
          | Inr r \<Rightarrow>
             if testMode cfg \<and> gene_num r \<notin> set test_ids_gene then Continue st1
             else if is_not r = ''NOT'' then Continue st1
             else
               let gene_id = ''WormBase:'' @ gene_num r;
                   ref1 = re_sub [''WB_REF:''] ''WormBase:'' (ref r);
                   srcs = (if ref1 \<noteq> [] then [ref1] else []);
                   st2 = (if eco_symbol r = ''IEA'' then st1\<lparr>eco_id := Some ''ECO:0000501''\<rparr> else st1)
               in (case eco_id st2 of
                     None \<Rightarrow> Raise UnboundLocalError st2
                   | Some e \<Rightarrow>
                       Continue (log_event
                         [AddAssociationToGraph
                            \<lparr>subject_id = gene_id, predicate = Model_of, object_id = term_id r,
                             evidence_code = Some e, source_refs = srcs\<rparr>] st2)))"

fun disease_association_rows ::
  "source_config \<Rightarrow> disease_state \<Rightarrow> string list list \<Rightarrow> disease_state outcome" where
  "disease_association_rows cfg st [] = Returned st"
| "disease_association_rows cfg st (row # rows) =
     (case disease_association_step cfg st row of
        Continue st' \<Rightarrow> disease_association_rows cfg st' rows
      | Break st' \<Rightarrow> Returned st'
      | Raise e st' \<Rightarrow> Raised e st')"

definition process_disease_association ::
  "source_config \<Rightarrow> string list list \<Rightarrow> disease_state outcome" where
  "process_disease_association cfg rows =
     disease_association_rows cfg \<lparr>line_counter = 0, graph = [], eco_id = None\<rparr> rows"

text \<open>
  A row of \<open>phenotype_association.wb\<close> or \<open>disease_association.wb\<close> with the given gene,
  negation flag, term, reference, evidence symbol and with/from column.
\<close>

definition wb_line ::
  "string \<Rightarrow> string \<Rightarrow> string \<Rightarrow> string \<Rightarrow> string \<Rightarrow> string \<Rightarrow> string list" where
  "wb_line gene neg term rf eco w =
     [''WB'', gene, ''aap-1'', neg, term, rf, eco, w, ''P'', [], ''Y110A7A.10'', ''gene'',
      ''taxon:6239'', ''20150612'', ''WB'', [], []]"


section \<open>Chromosome normalization\<close>

lemma upper_char_C_neq:
  "c \<noteq> CHR ''c'' \<Longrightarrow> c \<noteq> CHR ''C'' \<Longrightarrow> upper_char c \<noteq> CHR ''C''"
  by (simp add: upper_char_def)

lemma upper_char_C: "upper_char c = CHR ''C'' \<Longrightarrow> c = CHR ''c'' \<or> c = CHR ''C''"
  using upper_char_C_neq by blast

lemma upper_CHR: "upper p = ''CHR'' \<Longrightarrow> \<exists>a b c. p = [a, b, c] \<and> upper_char a = CHR ''C''"
  unfolding upper_def by (auto simp: map_eq_Cons_conv)

lemma not_bare_C: "upper_char a = CHR ''C'' \<Longrightarrow> \<not> bare_chromosome (a # s)"
  by (auto simp: bare_chromosome_def dest!: upper_char_C)

lemma upper_CHR_lit: "upper ''CHR'' = ''CHR''"
  by (simp add: upper_def upper_char_def)

lemma formatted_chr_prefixed_GL:
  assumes "upper p = ''CHR''"
  shows "formatted_chr (p @ ''GL'' @ rest) = []"
proof -
  obtain a b c where p: "p = [a, b, c]" and ua: "upper_char a = CHR ''C''"
    using upper_CHR[OF assms] by blast
  have nb: "\<not> bare_chromosome (p @ ''GL'' @ rest)"
    using not_bare_C[OF ua] by (simp add: p)
  have "take 3 (p @ ''GL'' @ rest) = p" by (simp add: p)
  then have f1: "re_sub_prefix_ci ''CHR'' ''chr'' (p @ ''GL'' @ rest) = ''chrGL'' @ rest"
    using assms by (simp add: re_sub_prefix_ci_def p upper_CHR_lit)
  show ?thesis
    unfolding formatted_chr_def Let_def f1 using nb by (simp add: startswith_def)
qed

text \<open>
  C7, as stated, fails: the value is emptied only when the string \<open>chrGL\<close> occurs in
  the formatted chromosome, and a bare contig accession such as \<open>GL000192.1\<close> contains
  the fragment \<open>GL\<close> but is returned unchanged.
\<close>

theorem chromosome_GL_counterexample:
  "re_search ''GL'' ''GL000192.1'' \<and> formatted_chr ''GL000192.1'' = ''GL000192.1''"
  by (simp add: formatted_chr_def re_sub_prefix_ci_def bare_chromosome_def upper_def
        upper_char_def startswith_def)

text \<open>
  C7, amended: \<open>X\<close> normalizes to \<open>chrX\<close>, \<open>CHR3\<close> normalizes to \<open>chr3\<close>, and every value
  that begins with \<open>chr\<close> in any letter case immediately followed by \<open>GL\<close> normalizes to
  the empty string.
\<close>

theorem chromosome_normalization:
  "formatted_chr ''X'' = ''chrX'' \<and> formatted_chr ''CHR3'' = ''chr3'' \<and>
   (\<forall>p rest. upper p = ''CHR'' \<longrightarrow> formatted_chr (p @ ''GL'' @ rest) = [])"
  using formatted_chr_prefixed_GL
  by (simp add: formatted_chr_def re_sub_prefix_ci_def bare_chromosome_def upper_def
        upper_char_def startswith_def)

theorem chromosome_normalization_witness:
  "upper ''Chr'' = ''CHR'' \<and> formatted_chr ''ChrGL000192.1'' = []"
proof -
  have u: "upper ''Chr'' = ''CHR''" by (simp add: upper_def upper_char_def)
  from chromosome_normalization
  have "upper ''Chr'' = ''CHR'' \<longrightarrow> formatted_chr (''Chr'' @ ''GL'' @ ''000192.1'') = []"
    by blast
  with u show ?thesis by simp
qed


section \<open>Patient phenotypes\<close>

lemma parse_phenotype_rows_unlimited:
  assumes "\<And>g row. phenotype_row_step hp g row = g @ ev row"
    and "list_all (\<lambda>row. length row = 3) rows"
    and "tm \<or> lim = None"
  shows "parse_phenotype_rows hp tm lim lc g rows = Returned (g @ concat (map ev rows))"
  using assms(2,3) by (induction rows arbitrary: lc g) (auto simp: assms(1) Let_def)

lemma parse_phenotype_rows_limited:
  assumes "\<And>g row. phenotype_row_step hp g row = g @ ev row"
    and "list_all (\<lambda>row. length row = 3) rows"
    and "\<not> tm"
  shows "parse_phenotype_rows hp tm (Some l) lc g rows =
           Returned (g @ concat (map ev (take (max 1 (nat (l - lc))) rows)))"
  using assms(2)
proof (induction rows arbitrary: lc g)
  case Nil
  then show ?case by simp
next
  case (Cons row rows)
  show ?case
  proof (cases "lc + 1 \<ge> l")
    case True
    then have "max 1 (nat (l - lc)) = Suc 0" by auto
    with True Cons.prems assms(3) show ?thesis by (simp add: assms(1) Let_def)
  next
    case False
    then have "max 1 (nat (l - lc)) = Suc (max 1 (nat (l - (lc + 1))))" by auto
    with False Cons assms(3) show ?thesis by (simp add: assms(1) Let_def)
  qed
qed

text \<open>
  C10: over a file of three-column rows the parser returns, and for every row it reads
  (all of them, or the first \<open>max 1 limit\<close> when a limit applies) it records the person,
  the \<open>has_phenotype\<close> triple to \<open>DOID:4\<close> whatever the presence column holds, and the
  triple to the row's own term exactly when the presence column is the string \<open>yes\<close>;
  nothing else is written.
\<close>

theorem patient_phenotype_triples:
  assumes "list_all (\<lambda>row. length row = 3) rows"
  shows "parse_patient_phenotypes hp tm lim rows =
     Returned (concat (map
       (\<lambda>row. [AddPerson ('':'' @ row ! 0) (row ! 0), AddTriple ('':'' @ row ! 0) hp ''DOID:4'']
               @ (if row ! 2 = ''yes'' then [AddTriple ('':'' @ row ! 0) hp (row ! 1)] else []))
       (if tm \<or> lim = None then rows else take (max 1 (nat (the lim))) rows)))"
proof -
  let ?ev = "\<lambda>row. [AddPerson ('':'' @ row ! 0) (row ! 0), AddTriple ('':'' @ row ! 0) hp ''DOID:4'']
               @ (if row ! 2 = ''yes'' then [AddTriple ('':'' @ row ! 0) hp (row ! 1)] else [])"
  have step: "\<And>g row. phenotype_row_step hp g row = g @ ?ev row"
    by (simp add: phenotype_row_step_def Let_def)
  show ?thesis
  proof (cases "tm \<or> lim = None")
    case True
    then show ?thesis
      unfolding parse_patient_phenotypes_def
      using parse_phenotype_rows_unlimited[where ev = ?ev, OF step assms True] by simp
  next
    case False
    then obtain l where l: "lim = Some l" and ntm: "\<not> tm" by auto
    show ?thesis
      unfolding parse_patient_phenotypes_def l
      using parse_phenotype_rows_limited[where ev = ?ev, OF step assms ntm, of l 0 "[]"] ntm
      by simp
  qed
qed

theorem patient_phenotype_triples_witness:
  "list_all (\<lambda>row. length row = 3)
     [[''p1'', ''HP:0000001'', ''yes''], [''p2'', ''HP:0000002'', ''Yes''],
      [''p3'', ''HP:0000003'', ''no'']] \<and>
   parse_patient_phenotypes ''has_phenotype'' False None
     [[''p1'', ''HP:0000001'', ''yes''], [''p2'', ''HP:0000002'', ''Yes''],
      [''p3'', ''HP:0000003'', ''no'']] =
   Returned
     [AddPerson '':p1'' ''p1'', AddTriple '':p1'' ''has_phenotype'' ''DOID:4'',
      AddTriple '':p1'' ''has_phenotype'' ''HP:0000001'',
      AddPerson '':p2'' ''p2'', AddTriple '':p2'' ''has_phenotype'' ''DOID:4'',
      AddPerson '':p3'' ''p3'', AddTriple '':p3'' ''has_phenotype'' ''DOID:4'']"
  using patient_phenotype_triples[of
      "[[''p1'', ''HP:0000001'', ''yes''], [''p2'', ''HP:0000002'', ''Yes''],
        [''p3'', ''HP:0000003'', ''no'']]" "''has_phenotype''" False None]
  by simp


section \<open>Facts about the string functions\<close>

lemma startswith_iff: "startswith p s \<longleftrightarrow> (\<exists>rest. s = p @ rest)"
proof
  assume "startswith p s"
  then have "s = p @ drop (length p) s"
    unfolding startswith_def by (metis append_take_drop_id)
  then show "\<exists>rest. s = p @ rest" ..
next
  assume "\<exists>rest. s = p @ rest"
  then show "startswith p s" by (auto simp: startswith_def)
qed

lemma re_search_append: "re_search p b \<Longrightarrow> re_search p (a @ b)"
  by (induction a) auto

lemma split_on_not_Nil: "split_on d s \<noteq> []"
  by (induction s) (auto split: list.splits)

text \<open>A substitution neither removes nor adds a character its patterns and its
  replacement do not contain.\<close>

lemma count_re_sub:
  "c \<notin> set rep \<Longrightarrow> (\<And>p. p \<in> set pats \<Longrightarrow> c \<notin> set p) \<Longrightarrow>
     count_list (re_sub pats rep s) c = count_list s c"
proof (induction pats rep s rule: re_sub.induct)
  case (1 pats rep)
  then show ?case by simp
next
  case (2 pats rep c0 cs)
  show ?case
  proof (cases "first_alt pats (c0 # cs)")
    case None
    with 2 show ?thesis by simp
  next
    case (Some p)
    from first_alt_Some[OF Some] obtain rest where p: "p \<in> set pats" and s: "c0 # cs = p @ rest"
      by (auto simp: startswith_iff)
    have cp: "count_list p c = 0" using "2.prems"(2)[OF p] by (simp add: count_list_0_iff)
    have cr: "count_list rep c = 0" using "2.prems"(1) by (simp add: count_list_0_iff)
    have dr: "drop (length p) (c0 # cs) = rest" by (simp add: s)
    have ih: "count_list (re_sub pats rep (drop (length p) (c0 # cs))) c
                = count_list (drop (length p) (c0 # cs)) c"
      using "2.IH"(2)[OF Some "2.prems"(1)] "2.prems"(2) by blast
    have "re_sub pats rep (c0 # cs) = rep @ re_sub pats rep (drop (length p) (c0 # cs))"
      using Some by simp
    then have "count_list (re_sub pats rep (c0 # cs)) c = count_list rest c"
      using ih cr by (simp add: dr)
    moreover have "count_list (c0 # cs) c = count_list rest c"
      unfolding s using cp by simp
    ultimately show ?thesis by simp
  qed
qed

text \<open>Rewriting the prefix \<open>WB:\<close> keeps every occurrence of \<open>WBRNAi\<close>.\<close>

lemma re_search_WBRNAi_sub:
  "re_search ''WBRNAi'' x \<Longrightarrow> re_search ''WBRNAi'' (re_sub [''WB:''] ''WormBase:'' x)"
proof (induction x rule: length_induct)
  case (1 x)
  show ?case
  proof (cases x)
    case Nil
    with 1 show ?thesis by simp
  next
    case (Cons c cs)
    show ?thesis
    proof (cases "startswith ''WB:'' x")
      case True
      then obtain rest where x: "x = ''WB:'' @ rest" by (auto simp: startswith_iff)
      from "1.prems" have "re_search ''WBRNAi'' rest"
        by (simp add: x startswith_def)
      moreover have "length rest < length x" by (simp add: x)
      ultimately have "re_search ''WBRNAi'' (re_sub [''WB:''] ''WormBase:'' rest)"
        using "1.IH" by blast
      then have "re_search ''WBRNAi'' (''WormBase:'' @ re_sub [''WB:''] ''WormBase:'' rest)"
        by (rule re_search_append)
      moreover have "re_sub [''WB:''] ''WormBase:'' x = ''WormBase:'' @ re_sub [''WB:''] ''WormBase:'' rest"
        by (simp add: x startswith_def)
      ultimately show ?thesis by simp
    next
      case False
      then have step: "re_sub [''WB:''] ''WormBase:'' x = c # re_sub [''WB:''] ''WormBase:'' cs"
        by (simp add: Cons)
      show ?thesis
      proof (cases "startswith ''WBRNAi'' x")
        case True
        then obtain rest where x: "x = ''WBRNAi'' @ rest" by (auto simp: startswith_iff)
        have "re_sub [''WB:''] ''WormBase:'' x = ''WBRNAi'' @ re_sub [''WB:''] ''WormBase:'' rest"
          by (simp add: x startswith_def)
        then show ?thesis by (simp add: startswith_def)
      next
        case nsw: False
        with "1.prems" have "re_search ''WBRNAi'' cs" by (simp add: Cons)
        then have "re_search ''WBRNAi'' (re_sub [''WB:''] ''WormBase:'' cs)"
          using "1.IH" by (simp add: Cons)
        then show ?thesis by (simp add: step)
      qed
    qed
  qed
qed


section \<open>Facts about the association loops\<close>

lemmas eval_defs = wb_line_def is_header_def startswith_def unpack_assoc_row_def
  allele_phenotype_step_def disease_association_step_def reassign_ref_with_def
  single_allele_subject_def gvc_subject_def gvc_id_def make_reagent_targeted_gene_id_def
  after_row_def log_event_def test_ids_gene_def strip_def is_space_def Let_def

lemma unpack_assoc_row_17:
  "length row = 17 \<Longrightarrow>
   unpack_assoc_row row =
     Inr \<lparr>gene_num = row ! 1, is_not = row ! 3, term_id = row ! 4, ref = row ! 5,
          eco_symbol = row ! 6, with_or_from = row ! 7\<rparr>"
  by (simp add: unpack_assoc_row_def)

lemma associations_append: "associations (xs @ ys) = associations xs @ associations ys"
  by (induction xs rule: associations.induct) auto

lemma associations_AddParts: "associations (map (\<lambda>a. AddParts (f a) g) xs) = []"
  by (induction xs) auto

lemma after_row_cases: "after_row cfg st = Continue st \<or> after_row cfg st = Break st"
  by (simp add: after_row_def)

lemma associations_log_event:
  "associations (graph (log_event es st)) = associations (graph st) @ associations es"
  by (simp add: log_event_def associations_append)

lemma associations_gvc_subject: "associations (fst (gvc_subject nb xs)) = []"
  by (simp add: gvc_subject_def Let_def associations_append associations_AddParts)

lemma snd_gvc_subject: "snd (gvc_subject nb xs) = gvc_id nb xs"
  by (simp add: gvc_subject_def Let_def)

lemma associations_single_allele_subject: "associations (fst (single_allele_subject nb g x)) = []"
  by (simp add: single_allele_subject_def Let_def)

lemma snd_single_allele_subject_reagent:
  "re_search ''WBRNAi'' x \<Longrightarrow>
   snd (single_allele_subject nb g x) =
     make_reagent_targeted_gene_id nb g (re_sub [''WormBase:''] [] (re_sub [''WB:''] ''WormBase:'' x))"
  by (simp add: single_allele_subject_def Let_def re_search_WBRNAi_sub)

text \<open>
  A synthesized reagent-targeted-gene identifier has one underscore more than its
  reagent part, so it differs from every string with as many underscores as that part.
\<close>

lemma rtg_id_neq:
  assumes "count_list s CHR ''_'' = count_list r CHR ''_''"
  shows "make_reagent_targeted_gene_id nb g r \<noteq> s"
proof
  assume "make_reagent_targeted_gene_id nb g r = s"
  then have "count_list (make_reagent_targeted_gene_id nb g r) CHR ''_'' = count_list r CHR ''_''"
    using assms by simp
  then show False
    by (simp add: make_reagent_targeted_gene_id_def Let_def split: if_splits)
qed

text \<open>
  What a row that reaches the builder appends to the graph: the row is not a header
  line, is not filtered out in test mode and is not negated; \<open>with1\<close> is the with/from
  value after the reassignment of lines 282-291.
\<close>

lemma allele_phenotype_step_builds:
  assumes "length row = 17" and "\<not> is_header row"
    and "\<not> (testMode cfg \<and> row ! 1 \<notin> set test_ids_gene)"
    and "row ! 3 \<noteq> ''NOT''"
    and "with1 = (if re_search ''WBVar'' (row ! 5) \<or> re_search ''WBRNAi'' (row ! 5)
                  then row ! 5 else row ! 7)"
    and "es_subj = (if length (split_on CHR ''|'' with1) = 1
                    then single_allele_subject (nobnodes cfg) (row ! 1) (hd (split_on CHR ''|'' with1))
                    else gvc_subject (nobnodes cfg) (split_on CHR ''|'' with1))"
  shows "\<exists>st' a. (allele_phenotype_step cfg st row = Continue st' \<or>
                   allele_phenotype_step cfg st row = Break st') \<and>
            graph st' = graph st
               @ (if row ! 6 \<noteq> ''IMP'' \<and> strip (row ! 6) \<noteq> [] then [LogWarn (row ! 6)] else [])
               @ fst es_subj @ [AddAssociationToGraph a] \<and>
            associations (graph st') = associations (graph st) @ associations (fst es_subj) @ [a] \<and>
            subject_id a = snd es_subj \<and> object_id a = row ! 4 \<and>
            evidence_code a = (if row ! 6 = ''IMP'' then Some ''ECO:0000015'' else None) \<and>
            source_refs a =
              (if (if startswith ''WBPerson'' (row ! 7) then row ! 7 else row ! 5) = [] then []
               else [re_sub [''WB:'', ''WB_REF:''] ''WormBase:''
                       (if startswith ''WBPerson'' (row ! 7) then row ! 7 else row ! 5)])"
proof -
  define st1 where "st1 = st\<lparr>line_counter := line_counter st + 1\<rparr>"
  define st2 where "st2 = (if row ! 6 \<noteq> ''IMP'' \<and> strip (row ! 6) \<noteq> []
                          then log_event [LogWarn (row ! 6)] st1 else st1)"
  define a where "a = \<lparr>subject_id = snd es_subj, predicate = Default_relation,
       object_id = row ! 4,
       evidence_code = (if row ! 6 = ''IMP'' then Some ''ECO:0000015'' else None),
       source_refs = (if fst (reassign_ref_with (row ! 5) (row ! 7)) \<noteq> []
          then [re_sub [''WB:'', ''WB_REF:''] ''WormBase:'' (fst (reassign_ref_with (row ! 5) (row ! 7)))]
          else [])\<rparr>"
  define st3 where "st3 = log_event (fst es_subj @ [AddAssociationToGraph a]) st2"
  have w1: "snd (reassign_ref_with (row ! 5) (row ! 7)) = with1"
    by (simp add: reassign_ref_with_def assms(5))
  have step: "allele_phenotype_step cfg st row = after_row cfg st3"
  proof (cases "testMode cfg")
    case True
    with assms(3) have "row ! 1 \<in> set test_ids_gene" by simp
    with True assms(1,2,4) split_on_not_Nil[of "CHR ''|''" with1] show ?thesis
      by (simp add: allele_phenotype_step_def unpack_assoc_row_def Let_def split_beta w1
            st3_def st2_def st1_def a_def assms(6))
  next
    case False
    with assms(1,2,4) split_on_not_Nil[of "CHR ''|''" with1] show ?thesis
      by (simp add: allele_phenotype_step_def unpack_assoc_row_def Let_def split_beta w1
            st3_def st2_def st1_def a_def assms(6))
  qed
  have g2: "associations (graph st2) = associations (graph st)"
    by (simp add: st2_def st1_def associations_log_event)
  have g3: "associations (graph st3) = associations (graph st) @ associations (fst es_subj) @ [a]"
    by (simp add: st3_def associations_log_event associations_append g2)
  have g4: "graph st3 = graph st
               @ (if row ! 6 \<noteq> ''IMP'' \<and> strip (row ! 6) \<noteq> [] then [LogWarn (row ! 6)] else [])
               @ fst es_subj @ [AddAssociationToGraph a]"
    by (simp add: st3_def st2_def st1_def log_event_def)
  have r1: "fst (reassign_ref_with (row ! 5) (row ! 7))
              = (if startswith ''WBPerson'' (row ! 7) then row ! 7 else row ! 5)"
    by (simp add: reassign_ref_with_def)
  have "subject_id a = snd es_subj" "object_id a = row ! 4"
    "evidence_code a = (if row ! 6 = ''IMP'' then Some ''ECO:0000015'' else None)"
    "source_refs a =
       (if (if startswith ''WBPerson'' (row ! 7) then row ! 7 else row ! 5) = [] then []
        else [re_sub [''WB:'', ''WB_REF:''] ''WormBase:''
                (if startswith ''WBPerson'' (row ! 7) then row ! 7 else row ! 5)])"
    unfolding a_def r1 by simp_all
  note props = this
  have s: "allele_phenotype_step cfg st row = Continue st3 \<or>
           allele_phenotype_step cfg st row = Break st3"
    using step after_row_cases[of cfg st3] by simp
  show ?thesis
    by (rule exI[of _ st3], rule exI[of _ a]) (use s g3 g4 props in blast)
qed


section \<open>Negated rows\<close>

text \<open>
  C4: a 17-column row of the allele-phenotype file or of the disease file whose negation
  column is \<open>NOT\<close> writes nothing to the graph, so no association is built or emitted
  for it, raises nothing, and the loop goes on with the rows that follow it.
\<close>

theorem negated_rows_build_no_association:
  assumes "length row = 17" and "row ! 3 = ''NOT''"
  shows "(\<exists>st'. allele_phenotype_step cfg st row = Continue st' \<and> graph st' = graph st \<and>
            allele_phenotype_rows cfg st (row # rows) = allele_phenotype_rows cfg st' rows) \<and>
         (\<exists>dst'. disease_association_step cfg dst row = Continue dst' \<and> graph dst' = graph dst \<and>
            eco_id dst' = eco_id dst \<and>
            disease_association_rows cfg dst (row # rows) = disease_association_rows cfg dst' rows)"
  using assms
  by (simp add: allele_phenotype_step_def disease_association_step_def unpack_assoc_row_17 Let_def)

theorem negated_rows_build_no_association_witness:
  "length (wb_line ''WBGene00000001'' ''NOT'' ''WBPhenotype:0000001'' ''WB_REF:WBPaper00000003''
             ''IMP'' ''WB:WBVar00000001'') = 17 \<and>
   wb_line ''WBGene00000001'' ''NOT'' ''WBPhenotype:0000001'' ''WB_REF:WBPaper00000003''
             ''IMP'' ''WB:WBVar00000001'' ! 3 = ''NOT'' \<and>
   (\<exists>st'. allele_phenotype_step \<lparr>testMode = False, limit = None, nobnodes = True\<rparr>
            \<lparr>line_counter = 0, graph = []\<rparr>
            (wb_line ''WBGene00000001'' ''NOT'' ''WBPhenotype:0000001'' ''WB_REF:WBPaper00000003''
               ''IMP'' ''WB:WBVar00000001'') = Continue st' \<and> graph st' = []) \<and>
   (\<exists>dst'. disease_association_step \<lparr>testMode = False, limit = None, nobnodes = True\<rparr>
            \<lparr>line_counter = 0, graph = [], eco_id = None\<rparr>
            (wb_line ''WBGene00000001'' ''NOT'' ''WBPhenotype:0000001'' ''WB_REF:WBPaper00000003''
               ''IMP'' ''WB:WBVar00000001'') = Continue dst' \<and> graph dst' = [])"
proof -
  let ?row = "wb_line ''WBGene00000001'' ''NOT'' ''WBPhenotype:0000001'' ''WB_REF:WBPaper00000003''
                ''IMP'' ''WB:WBVar00000001''"
  have h1: "length ?row = 17" by (simp add: wb_line_def)
  have h2: "?row ! 3 = ''NOT''" by (simp add: wb_line_def)
  from negated_rows_build_no_association[OF h1 h2,
      of "\<lparr>testMode = False, limit = None, nobnodes = True\<rparr>"
         "\<lparr>line_counter = 0, graph = []\<rparr>" "[]"
         "\<lparr>line_counter = 0, graph = [], eco_id = None\<rparr>"]
  obtain st' dst' where
    "allele_phenotype_step \<lparr>testMode = False, limit = None, nobnodes = True\<rparr>
       \<lparr>line_counter = 0, graph = []\<rparr> ?row = Continue st'"
    "graph st' = graph \<lparr>line_counter = 0, graph = []\<rparr>"
    "disease_association_step \<lparr>testMode = False, limit = None, nobnodes = True\<rparr>
       \<lparr>line_counter = 0, graph = [], eco_id = None\<rparr> ?row = Continue dst'"
    "graph dst' = graph \<lparr>line_counter = 0, graph = [], eco_id = None\<rparr>"
    by blast
  with h1 h2 show ?thesis by auto
qed


section \<open>Reference and with/from columns\<close>

text \<open>
  What the loop of \<open>process_allele_phenotype\<close> does with the two columns of a row that
  reaches the builder. The subject of the association is made from the reference column
  when that column contains \<open>WBVar\<close> or \<open>WBRNAi\<close>, and from the with/from column
  otherwise; its source is the with/from column when that column begins with
  \<open>WBPerson\<close>, and the reference column otherwise (no source when that value is empty).
  So each column is replaced only when the test on the other one succeeds.
\<close>

lemma allele_phenotype_step_columns:
  assumes "length row = 17" and "\<not> is_header row"
    and "\<not> (testMode cfg \<and> row ! 1 \<notin> set test_ids_gene)"
    and "row ! 3 \<noteq> ''NOT''"
    and "with1 = (if re_search ''WBVar'' (row ! 5) \<or> re_search ''WBRNAi'' (row ! 5)
                  then row ! 5 else row ! 7)"
    and "ref1 = (if startswith ''WBPerson'' (row ! 7) then row ! 7 else row ! 5)"
  shows "\<exists>st' a. (allele_phenotype_step cfg st row = Continue st' \<or>
                   allele_phenotype_step cfg st row = Break st') \<and>
            associations (graph st') = associations (graph st) @ [a] \<and>
            subject_id a =
              snd (if length (split_on CHR ''|'' with1) = 1
                   then single_allele_subject (nobnodes cfg) (row ! 1) (hd (split_on CHR ''|'' with1))
                   else gvc_subject (nobnodes cfg) (split_on CHR ''|'' with1)) \<and>
            source_refs a =
              (if ref1 = [] then [] else [re_sub [''WB:'', ''WB_REF:''] ''WormBase:'' ref1])"
  using allele_phenotype_step_builds[OF assms(1-5) refl, of st]
  by (auto simp: assms(6) associations_gvc_subject associations_single_allele_subject)

text \<open>
  C9 does not hold for a publication in the with/from column, although the comments of
  the loop say that papers found there are moved into the reference (lines 278-285).
  The test on the with/from column is \<open>re.match('WBPerson', with_or_from)\<close>: it is
  anchored at the start and names persons only. In the first row below the reference
  column holds a variant and the with/from column holds a paper: the variant becomes the
  subject and stays the source, and the paper is lost. In the second row the with/from
  column holds a person with the prefix \<open>WB:\<close> that the identifiers of the file carry:
  the anchored test misses it, where the unanchored \<open>re.search\<close> on the reference
  column finds the prefixed variant. In the third row the person has no prefix and
  becomes the source.
\<close>

theorem publication_in_with_column_not_moved:
  "allele_phenotype_step \<lparr>testMode = False, limit = None, nobnodes = True\<rparr>
     \<lparr>line_counter = 0, graph = []\<rparr>
     (wb_line ''WBGene00000001'' [] ''WBPhenotype:0000001'' ''WB:WBVar00000001'' ''IMP''
        ''WB_REF:WBPaper00000003'') =
   Continue \<lparr>line_counter = 1, graph = [AddAssociationToGraph
      \<lparr>subject_id = ''WormBase:WBVar00000001'', predicate = Default_relation,
       object_id = ''WBPhenotype:0000001'', evidence_code = Some ''ECO:0000015'',
       source_refs = [''WormBase:WBVar00000001'']\<rparr>]\<rparr> \<and>
   allele_phenotype_step \<lparr>testMode = False, limit = None, nobnodes = True\<rparr>
     \<lparr>line_counter = 0, graph = []\<rparr>
     (wb_line ''WBGene00000001'' [] ''WBPhenotype:0000001'' ''WB:WBVar00000001'' ''IMP''
        ''WB:WBPerson557'') =
   Continue \<lparr>line_counter = 1, graph = [AddAssociationToGraph
      \<lparr>subject_id = ''WormBase:WBVar00000001'', predicate = Default_relation,
       object_id = ''WBPhenotype:0000001'', evidence_code = Some ''ECO:0000015'',
       source_refs = [''WormBase:WBVar00000001'']\<rparr>]\<rparr> \<and>
   allele_phenotype_step \<lparr>testMode = False, limit = None, nobnodes = True\<rparr>
     \<lparr>line_counter = 0, graph = []\<rparr>
     (wb_line ''WBGene00000001'' [] ''WBPhenotype:0000001'' ''WB:WBVar00000001'' ''IMP''
        ''WBPerson557'') =
   Continue \<lparr>line_counter = 1, graph = [AddAssociationToGraph
      \<lparr>subject_id = ''WormBase:WBVar00000001'', predicate = Default_relation,
       object_id = ''WBPhenotype:0000001'', evidence_code = Some ''ECO:0000015'',
       source_refs = [''WBPerson557'']\<rparr>]\<rparr>"
  by (simp add: eval_defs)


section \<open>Keys of variant collections\<close>

text \<open>
  C2: the key of a variant collection depends only on the identifiers and how often each
  occurs, not on their order: two lists that are permutations of each other get the same
  key (for \<open>[WBVar2, WBVar1]\<close> and \<open>[WBVar1, WBVar2]\<close> alike).
\<close>

theorem gvc_id_permutation_invariant:
  assumes "mset xs = mset ys"
  shows "gvc_id nb xs = gvc_id nb ys"
proof -
  have "sort xs = sort ys"
    by (rule properties_for_sort) (simp_all add: assms)
  then show ?thesis by (simp add: gvc_id_def)
qed

theorem gvc_id_permutation_invariant_witness:
  "mset [''WBVar2'', ''WBVar1''] = mset [''WBVar1'', ''WBVar2''] \<and>
   gvc_id True [''WBVar2'', ''WBVar1''] = gvc_id True [''WBVar1'', ''WBVar2''] \<and>
   gvc_id True [''WBVar1'', ''WBVar2''] = '':_WBVar1-WBVar2''"
proof -
  have m: "mset [''WBVar2'', ''WBVar1''] = mset [''WBVar1'', ''WBVar2'']" by simp
  have "gvc_id True [''WBVar1'', ''WBVar2''] = '':_WBVar1-WBVar2''"
    by (simp add: gvc_id_def startswith_def)
  with m gvc_id_permutation_invariant[OF m, of True] show ?thesis by simp
qed


section \<open>Rows with several allele identifiers\<close>

text \<open>
  C5, as stated, fails: the list that is split is the with/from value after the
  reassignment of lines 282-291. In the row below the with/from column holds two allele
  identifiers and the reference column holds a third one; the reference column takes the
  with/from role, and the single association that is built has that third allele as its
  subject, not the key of the collection of the two.
\<close>

theorem multi_allele_with_column_counterexample:
  "split_on CHR ''|''
     (wb_line ''WBGene00000001'' [] ''WBPhenotype:0000001'' ''WB:WBVar00000003'' ''IMP''
        ''WB:WBVar00000002|WB:WBVar00000001'' ! 7) = [''WB:WBVar00000002'', ''WB:WBVar00000001''] \<and>
   allele_phenotype_step \<lparr>testMode = False, limit = None, nobnodes = True\<rparr>
     \<lparr>line_counter = 0, graph = []\<rparr>
     (wb_line ''WBGene00000001'' [] ''WBPhenotype:0000001'' ''WB:WBVar00000003'' ''IMP''
        ''WB:WBVar00000002|WB:WBVar00000001'') =
   Continue \<lparr>line_counter = 1, graph = [AddAssociationToGraph
      \<lparr>subject_id = ''WormBase:WBVar00000003'', predicate = Default_relation,
       object_id = ''WBPhenotype:0000001'', evidence_code = Some ''ECO:0000015'',
       source_refs = [''WormBase:WBVar00000003'']\<rparr>]\<rparr> \<and>
   gvc_id True [''WB:WBVar00000002'', ''WB:WBVar00000001''] = '':_WBVar00000001-WBVar00000002''"
  by (simp add: eval_defs)

text \<open>
  C5, amended: for every 17-column row that is not a header line, is not filtered out in
  test mode and is not negated, when the with/from value after the reassignment (the
  reference column if it contains \<open>WBVar\<close> or \<open>WBRNAi\<close>, the with/from column otherwise)
  splits at \<open>|\<close> into two or more identifiers, the row adds exactly one association to
  the graph; its subject is the key of the collection, built from the sorted list, and
  its object is the row's phenotype. No association with a single allele as subject is
  added for the row.
\<close>

theorem multi_allele_rows_build_one_gvc_association:
  assumes "length row = 17" and "\<not> is_header row"
    and "\<not> (testMode cfg \<and> row ! 1 \<notin> set test_ids_gene)"
    and "row ! 3 \<noteq> ''NOT''"
    and "with1 = (if re_search ''WBVar'' (row ! 5) \<or> re_search ''WBRNAi'' (row ! 5)
                  then row ! 5 else row ! 7)"
    and "2 \<le> length (split_on CHR ''|'' with1)"
  shows "\<exists>st' a. (allele_phenotype_step cfg st row = Continue st' \<or>
                   allele_phenotype_step cfg st row = Break st') \<and>
            associations (graph st') = associations (graph st) @ [a] \<and>
            subject_id a = gvc_id (nobnodes cfg) (split_on CHR ''|'' with1) \<and>
            object_id a = row ! 4"
  using allele_phenotype_step_builds[OF assms(1-5) refl, of st] assms(6)
  by (auto simp: associations_gvc_subject snd_gvc_subject)

theorem multi_allele_rows_build_one_gvc_association_witness:
  "length (wb_line ''WBGene00000001'' [] ''WBPhenotype:0000001'' ''WB_REF:WBPaper00000003'' ''IMP''
        ''WB:WBVar00000002|WB:WBVar00000001'') = 17 \<and>
   2 \<le> length (split_on CHR ''|'' ''WB:WBVar00000002|WB:WBVar00000001'') \<and>
   (\<exists>st' a. allele_phenotype_step \<lparr>testMode = False, limit = None, nobnodes = True\<rparr>
       \<lparr>line_counter = 0, graph = []\<rparr>
       (wb_line ''WBGene00000001'' [] ''WBPhenotype:0000001'' ''WB_REF:WBPaper00000003'' ''IMP''
          ''WB:WBVar00000002|WB:WBVar00000001'') = Continue st' \<and>
      associations (graph st') = [a] \<and>
      subject_id a = '':_WBVar00000001-WBVar00000002'')"
  using multi_allele_rows_build_one_gvc_association[of
        "wb_line ''WBGene00000001'' [] ''WBPhenotype:0000001'' ''WB_REF:WBPaper00000003'' ''IMP''
           ''WB:WBVar00000002|WB:WBVar00000001''"
        "\<lparr>testMode = False, limit = None, nobnodes = True\<rparr>"
        "''WB:WBVar00000002|WB:WBVar00000001''" "\<lparr>line_counter = 0, graph = []\<rparr>"]
  by (simp add: eval_defs)


section \<open>Rows with one reagent\<close>

text \<open>
  C6, as stated, fails for the same reason: in the row below the with/from column holds
  one reagent identifier, the reference column holds an allele, and the association that
  is built has that allele as its subject, not the reagent-targeted gene of the row's
  gene and the reagent.
\<close>

theorem reagent_with_column_counterexample:
  "split_on CHR ''|''
     (wb_line ''WBGene00000001'' [] ''WBPhenotype:0000001'' ''WB:WBVar00000003'' ''IMP''
        ''WB:WBRNAi00000001'' ! 7) = [''WB:WBRNAi00000001''] \<and>
   re_search ''WBRNAi'' ''WB:WBRNAi00000001'' \<and>
   allele_phenotype_step \<lparr>testMode = False, limit = None, nobnodes = True\<rparr>
     \<lparr>line_counter = 0, graph = []\<rparr>
     (wb_line ''WBGene00000001'' [] ''WBPhenotype:0000001'' ''WB:WBVar00000003'' ''IMP''
        ''WB:WBRNAi00000001'') =
   Continue \<lparr>line_counter = 1, graph = [AddAssociationToGraph
      \<lparr>subject_id = ''WormBase:WBVar00000003'', predicate = Default_relation,
       object_id = ''WBPhenotype:0000001'', evidence_code = Some ''ECO:0000015'',
       source_refs = [''WormBase:WBVar00000003'']\<rparr>]\<rparr> \<and>
   make_reagent_targeted_gene_id True ''WBGene00000001'' ''WBRNAi00000001''
     = '':_WBGene00000001-WBRNAi00000001''"
  by (simp add: eval_defs)

text \<open>
  C6, amended: for every 17-column row that is not a header line, is not filtered out in
  test mode and is not negated, when the with/from value after the reassignment (the
  reference column if it contains \<open>WBVar\<close> or \<open>WBRNAi\<close>, the with/from column otherwise)
  is a single identifier that contains \<open>WBRNAi\<close>, the row adds exactly one association;
  its subject is the reagent-targeted-gene identifier made from the row's gene and the
  reagent (the identifier without its \<open>WB:\<close> or \<open>WormBase:\<close> prefix), and it is neither
  the identifier as read nor the identifier with its prefix rewritten.
\<close>

theorem reagent_rows_subject_is_reagent_targeted_gene:
  assumes "length row = 17" and "\<not> is_header row"
    and "\<not> (testMode cfg \<and> row ! 1 \<notin> set test_ids_gene)"
    and "row ! 3 \<noteq> ''NOT''"
    and "with1 = (if re_search ''WBVar'' (row ! 5) \<or> re_search ''WBRNAi'' (row ! 5)
                  then row ! 5 else row ! 7)"
    and "split_on CHR ''|'' with1 = [x]"
    and "re_search ''WBRNAi'' x"
  shows "\<exists>st' a. (allele_phenotype_step cfg st row = Continue st' \<or>
                   allele_phenotype_step cfg st row = Break st') \<and>
            associations (graph st') = associations (graph st) @ [a] \<and>
            subject_id a = make_reagent_targeted_gene_id (nobnodes cfg) (row ! 1)
                (re_sub [''WormBase:''] [] (re_sub [''WB:''] ''WormBase:'' x)) \<and>
            subject_id a \<noteq> x \<and> subject_id a \<noteq> re_sub [''WB:''] ''WormBase:'' x"
proof -
  let ?allele_id = "re_sub [''WB:''] ''WormBase:'' x"
  let ?rnai_num = "re_sub [''WormBase:''] [] ?allele_id"
  have c1: "count_list ?allele_id CHR ''_'' = count_list x CHR ''_''"
    by (rule count_re_sub) auto
  have c2: "count_list ?rnai_num CHR ''_'' = count_list ?allele_id CHR ''_''"
    by (rule count_re_sub) auto
  have n1: "make_reagent_targeted_gene_id (nobnodes cfg) (row ! 1) ?rnai_num \<noteq> x"
    by (rule rtg_id_neq) (simp add: c1 c2)
  have n2: "make_reagent_targeted_gene_id (nobnodes cfg) (row ! 1) ?rnai_num \<noteq> ?allele_id"
    by (rule rtg_id_neq) (simp add: c2)
  show ?thesis
    using allele_phenotype_step_builds[OF assms(1-5) refl, of st] assms(6) n1 n2
    by (auto simp: associations_single_allele_subject snd_single_allele_subject_reagent[OF assms(7)])
qed

theorem reagent_rows_subject_is_reagent_targeted_gene_witness:
  "length (wb_line ''WBGene00000001'' [] ''WBPhenotype:0000001'' ''WB_REF:WBPaper00000003'' ''IMP''
        ''WB:WBRNAi00000001'') = 17 \<and>
   split_on CHR ''|'' ''WB:WBRNAi00000001'' = [''WB:WBRNAi00000001''] \<and>
   re_search ''WBRNAi'' ''WB:WBRNAi00000001'' \<and>
   (\<exists>st' a. allele_phenotype_step \<lparr>testMode = False, limit = None, nobnodes = True\<rparr>
       \<lparr>line_counter = 0, graph = []\<rparr>
       (wb_line ''WBGene00000001'' [] ''WBPhenotype:0000001'' ''WB_REF:WBPaper00000003'' ''IMP''
          ''WB:WBRNAi00000001'') = Continue st' \<and>
      associations (graph st') = [a] \<and>
      subject_id a = '':_WBGene00000001-WBRNAi00000001'')"
  using reagent_rows_subject_is_reagent_targeted_gene[of
        "wb_line ''WBGene00000001'' [] ''WBPhenotype:0000001'' ''WB_REF:WBPaper00000003'' ''IMP''
           ''WB:WBRNAi00000001''"
        "\<lparr>testMode = False, limit = None, nobnodes = True\<rparr>"
        "''WB:WBRNAi00000001''" "''WB:WBRNAi00000001''" "\<lparr>line_counter = 0, graph = []\<rparr>"]
  by (simp add: eval_defs)


section \<open>Evidence symbols outside the lookup\<close>

text \<open>
  In \<open>process_allele_phenotype\<close> a row that reaches the builder with an evidence symbol
  other than \<open>IMP\<close> that is not blank logs a warning and still adds its association,
  without an evidence code; and no 17-column row makes the loop body raise.
\<close>

lemma allele_phenotype_unmapped_evidence:
  assumes "length row = 17" and "\<not> is_header row"
    and "\<not> (testMode cfg \<and> row ! 1 \<notin> set test_ids_gene)"
    and "row ! 3 \<noteq> ''NOT''"
    and "row ! 6 \<noteq> ''IMP''" and "strip (row ! 6) \<noteq> []"
  shows "\<exists>st' a. (allele_phenotype_step cfg st row = Continue st' \<or>
                   allele_phenotype_step cfg st row = Break st') \<and>
            LogWarn (row ! 6) \<in> set (graph st') \<and>
            AddAssociationToGraph a \<in> set (graph st') \<and> evidence_code a = None"
proof -
  from allele_phenotype_step_builds[OF assms(1-4) refl refl, of st]
  obtain st' a where s: "allele_phenotype_step cfg st row = Continue st' \<or>
                   allele_phenotype_step cfg st row = Break st'"
    and g: "graph st' = graph st
               @ (if row ! 6 \<noteq> ''IMP'' \<and> strip (row ! 6) \<noteq> [] then [LogWarn (row ! 6)] else [])
               @ fst (if length (split_on CHR ''|'' (if re_search ''WBVar'' (row ! 5) \<or> re_search ''WBRNAi'' (row ! 5)
                  then row ! 5 else row ! 7)) = 1
                    then single_allele_subject (nobnodes cfg) (row ! 1) (hd (split_on CHR ''|'' (if re_search ''WBVar'' (row ! 5) \<or> re_search ''WBRNAi'' (row ! 5)
                  then row ! 5 else row ! 7)))
                    else gvc_subject (nobnodes cfg) (split_on CHR ''|'' (if re_search ''WBVar'' (row ! 5) \<or> re_search ''WBRNAi'' (row ! 5)
                  then row ! 5 else row ! 7))) @ [AddAssociationToGraph a]"
    and e: "evidence_code a = (if row ! 6 = ''IMP'' then Some ''ECO:0000015'' else None)"
    by blast
  have "LogWarn (row ! 6) \<in> set (graph st')" unfolding g using assms(5,6) by simp
  moreover have "AddAssociationToGraph a \<in> set (graph st')" unfolding g by simp
  moreover have "evidence_code a = None" using e assms(5) by simp
  ultimately show ?thesis using s by blast
qed


lemma allele_phenotype_step_never_raises:
  assumes "length row = 17"
  shows "allele_phenotype_step cfg st row \<noteq> Raise e st'"
proof (cases "is_header row \<or> (testMode cfg \<and> row ! 1 \<notin> set test_ids_gene) \<or> row ! 3 = ''NOT''")
  case True
  then show ?thesis
    using assms by (auto simp: allele_phenotype_step_def unpack_assoc_row_def Let_def)
next
  case False
  then have h: "\<not> is_header row" "\<not> (testMode cfg \<and> row ! 1 \<notin> set test_ids_gene)"
    "row ! 3 \<noteq> ''NOT''" by blast+
  from allele_phenotype_step_builds[OF assms h refl refl, of st]
  obtain st'' where "allele_phenotype_step cfg st row = Continue st'' \<or>
                   allele_phenotype_step cfg st row = Break st''" by blast
  then show ?thesis by auto
qed

lemma allele_phenotype_rows_return:
  assumes "list_all (\<lambda>row. length row = 17) rows"
  shows "\<exists>st'. allele_phenotype_rows cfg st rows = Returned st'"
  using assms
proof (induction rows arbitrary: st)
  case Nil
  then show ?case by simp
next
  case (Cons row rows)
  then have len: "length row = 17" and rest: "list_all (\<lambda>row. length row = 17) rows" by simp_all
  show ?case
  proof (cases "allele_phenotype_step cfg st row")
    case (Continue s)
    with Cons.IH[OF rest, of s] show ?thesis by simp
  next
    case (Break s)
    then show ?thesis by simp
  next
    case (Raise e s)
    with allele_phenotype_step_never_raises[OF len] show ?thesis by blast
  qed
qed

text \<open>
  C8 does not hold in \<open>process_disease_association\<close>. The variable \<open>eco_id\<close> is assigned
  only for the symbol \<open>IEA\<close>, so a first data row with the symbol \<open>ISS\<close> ends the run
  with \<open>UnboundLocalError\<close> before its association reaches the graph; after a row with
  \<open>IEA\<close>, a row with \<open>ISS\<close> logs no warning and its association carries the code of
  the earlier row.
\<close>

theorem disease_unmapped_evidence_raises:
  "process_disease_association \<lparr>testMode = False, limit = None, nobnodes = True\<rparr>
     [wb_line ''WBGene00000001'' [] ''DOID:2583'' ''PMID:19029536'' ''ISS'' ''OMIM:615214'']
   = Raised UnboundLocalError \<lparr>line_counter = 1, graph = [], eco_id = None\<rparr> \<and>
   process_disease_association \<lparr>testMode = False, limit = None, nobnodes = True\<rparr>
     [wb_line ''WBGene00000001'' [] ''DOID:2583'' ''PMID:19029536'' ''IEA'' ''OMIM:615214'',
      wb_line ''WBGene00000002'' [] ''DOID:2583'' ''PMID:19029536'' ''ISS'' ''OMIM:615214'']
   = Returned \<lparr>line_counter = 2,
       graph = [AddAssociationToGraph
                  \<lparr>subject_id = ''WormBase:WBGene00000001'', predicate = Model_of,
                   object_id = ''DOID:2583'', evidence_code = Some ''ECO:0000501'',
                   source_refs = [''PMID:19029536'']\<rparr>,
                AddAssociationToGraph
                  \<lparr>subject_id = ''WormBase:WBGene00000002'', predicate = Model_of,
                   object_id = ''DOID:2583'', evidence_code = Some ''ECO:0000501'',
                   source_refs = [''PMID:19029536'']\<rparr>],
       eco_id = Some ''ECO:0000501''\<rparr>"
  by (simp add: process_disease_association_def eval_defs)


section \<open>Variant keys\<close>

text \<open>A key built from five non-empty fields does not depend on the line it stands on.\<close>

lemma complete_key_line_independent:
  assumes "[] \<notin> set info"
  shows "variant_id n info = variant_id n' info"
  using assms by (simp add: variant_id_def)

lemma genes_at_add_variant_row:
  "genes_at (Inr (add_variant_row n m r)) p k =
     (if patient r = p \<and> variant_id n (variant_info r) = k
      then Some (genes_list m p k @ [gene_symbol r])
      else genes_at (Inr m) p k)"
  by (auto simp: genes_at_def genes_list_def add_variant_row_def Let_def split: option.splits)

text \<open>
  Over rows of 23 columns the function returns a map, and the list stored for a patient
  under a key is the list of the gene symbols of exactly the rows of that patient with
  that key, in file order.
\<close>

lemma convert_rows_genes:
  assumes "list_all (\<lambda>row. length row = 23) rows"
  shows "\<exists>m'. convert_rows n m rows = Inr m' \<and>
           (\<forall>p k. genes_at (Inr m') p k =
              (if contributing_genes n (map variant_row_of rows) p k = []
               then genes_at (Inr m) p k
               else Some (genes_list m p k @ contributing_genes n (map variant_row_of rows) p k)))"
  using assms
proof (induction rows arbitrary: n m)
  case Nil
  then show ?case by simp
next
  case (Cons row rows)
  then have len: "length row = 23" and rest: "list_all (\<lambda>row. length row = 23) rows" by simp_all
  let ?m1 = "add_variant_row n m (variant_row_of row)"
  from Cons.IH[OF rest, of "Suc n" ?m1] obtain m' where
    c: "convert_rows (Suc n) ?m1 rows = Inr m'" and
    g: "\<And>p k. genes_at (Inr m') p k =
              (if contributing_genes (Suc n) (map variant_row_of rows) p k = []
               then genes_at (Inr ?m1) p k
               else Some (genes_list ?m1 p k @ contributing_genes (Suc n) (map variant_row_of rows) p k))"
    by blast
  have "convert_rows n m (row # rows) = Inr m'"
    using len c by (simp add: unpack_variant_row_def)
  moreover have "genes_at (Inr m') p k =
              (if contributing_genes n (map variant_row_of (row # rows)) p k = []
               then genes_at (Inr m) p k
               else Some (genes_list m p k @ contributing_genes n (map variant_row_of (row # rows)) p k))" for p k
    unfolding g by (simp add: genes_at_add_variant_row genes_list_def)
  ultimately show ?case by blast
qed

lemma convert_variant_file_genes:
  assumes "list_all (\<lambda>row. length row = 23) rows"
  shows "genes_at (convert_variant_file_to_dict rows) p k =
           (if contributing_genes 0 (map variant_row_of rows) p k = [] then None
            else Some (contributing_genes 0 (map variant_row_of rows) p k))"
proof -
  from convert_rows_genes[OF assms, of 0 Map.empty] obtain m' where
    "convert_rows 0 Map.empty rows = Inr m'"
    "\<And>p k. genes_at (Inr m') p k =
              (if contributing_genes 0 (map variant_row_of rows) p k = []
               then genes_at (Inr Map.empty) p k
               else Some (genes_list Map.empty p k @ contributing_genes 0 (map variant_row_of rows) p k))"
    by blast
  then show ?thesis
    by (simp add: convert_variant_file_to_dict_def genes_at_def genes_list_def)
qed

lemma less_10_cases:
  "(d::nat) < 10 \<Longrightarrow>
     d = 0 \<or> d = 1 \<or> d = 2 \<or> d = 3 \<or> d = 4 \<or> d = 5 \<or> d = 6 \<or> d = 7 \<or> d = 8 \<or> d = 9"
  by arith

lemma upt_10: "[0..<10] = [0, 1, 2, 3, 4, 5, 6, 7, 8, 9]"
  by (simp add: upt_rec)

lemma digit_val_digit_char: "d < 10 \<Longrightarrow> digit_val (digit_char d) = d"
  by (drule less_10_cases) (auto simp: digit_val_def digit_char_def upt_10)

lemma digit_char_not_hyphen: "d < 10 \<Longrightarrow> digit_char d \<noteq> CHR ''-''"
  by (drule less_10_cases) (auto simp: digit_char_def)

lemma nat_of_str_str_nat: "nat_of_str (str_nat n) = n"
proof (induction n rule: str_nat.induct)
  case (1 n)
  show ?case
  proof (cases "n < 10")
    case True
    then show ?thesis
      by (subst str_nat.simps) (simp add: nat_of_str_def digit_val_digit_char)
  next
    case False
    with 1 have ih: "nat_of_str (str_nat (n div 10)) = n div 10" by simp
    have "nat_of_str (str_nat n)
            = 10 * nat_of_str (str_nat (n div 10)) + digit_val (digit_char (n mod 10))"
      using False by (subst str_nat.simps) (simp add: nat_of_str_def)
    then show ?thesis by (simp add: ih digit_val_digit_char)
  qed
qed

lemma str_nat_no_hyphen: "CHR ''-'' \<notin> set (str_nat n)"
proof (induction n rule: str_nat.induct)
  case (1 n)
  show ?case
  proof (cases "n < 10")
    case True
    then show ?thesis
      using digit_char_not_hyphen[of n] by (subst str_nat.simps) auto
  next
    case False
    with 1 have "CHR ''-'' \<notin> set (str_nat (n div 10))" by simp
    then show ?thesis
      using False digit_char_not_hyphen[of "n mod 10"] by (subst str_nat.simps) auto
  qed
qed

lemma fallback_key_line:
  assumes "[] \<in> set info"
  shows "takeWhile (\<lambda>c. c \<noteq> CHR ''-'') (variant_id n info) = str_nat n"
proof -
  have "variant_id n info = str_nat n @ CHR ''-'' # join ''-'' (filter (\<lambda>i. i \<noteq> []) info)"
    using assms by (simp add: variant_id_def)
  then show ?thesis
    using str_nat_no_hyphen[of n] by (auto simp: takeWhile_tail)
qed

text \<open>Two rows that each lack a field never share a key: their line numbers differ.\<close>

lemma fallback_keys_differ:
  assumes "[] \<in> set info" and "[] \<in> set info'" and "n \<noteq> n'"
  shows "variant_id n info \<noteq> variant_id n' info'"
proof
  assume "variant_id n info = variant_id n' info'"
  then have "str_nat n = str_nat n'"
    using fallback_key_line[OF assms(1), of n] fallback_key_line[OF assms(2), of n'] by simp
  then have "nat_of_str (str_nat n) = nat_of_str (str_nat n')" by simp
  with assms(3) show False by (simp add: nat_of_str_str_nat)
qed

text \<open>
  C1 does not hold for a row that lacks a field and a complete row whose key begins with
  the line number of the first. Below, the row at line 0 has no reference allele; its
  key is \<open>0\<close>, a hyphen and its four remaining fields. The second row agrees with it on
  those four fields and has the reference allele \<open>0\<close>, so its key, the five fields
  joined, is the same string, and the two rows are merged into one entry with both genes.
\<close>

theorem fallback_key_merges_with_complete_row:
  "variant_info (variant_row_of (udp_variant_line ''P1'' ''0'' ''0'' ''0'' [] ''A'' ''G1''))
     = [''0'', ''0'', ''0'', [], ''A''] \<and>
   variant_info (variant_row_of (udp_variant_line ''P1'' ''0'' ''0'' ''0'' ''0'' ''A'' ''G2''))
     = [''0'', ''0'', ''0'', ''0'', ''A''] \<and>
   genes_at (convert_variant_file_to_dict
      [udp_variant_line ''P1'' ''0'' ''0'' ''0'' [] ''A'' ''G1'',
       udp_variant_line ''P1'' ''0'' ''0'' ''0'' ''0'' ''A'' ''G2''])
     ''P1'' ''0-0-0-0-A'' = Some [''G1'', ''G2'']"
  by (simp add: genes_at_def convert_variant_file_to_dict_def udp_variant_line_def
        unpack_variant_row_def variant_row_of_def add_variant_row_def variant_id_def variant_info_def
        formatted_chr_def formatted_build_def allele_base_def rs_id_of_def re_sub_prefix_ci_def
        bare_chromosome_def upper_def upper_char_def startswith_def str_nat.simps digit_char_def
        Let_def)

end
